theory Spec2Isabelle
  imports Main "HOL-Library.Word"
begin

section \<open>JavaScript strings and the platform functions the supervisor calls\<close>

text \<open>
  A JavaScript string is a sequence of UTF-16 code units. The supervisor hands one of its
  strings to \<^verbatim>\<open>btoa\<close>, whose behaviour depends on code units above \<open>0xFF\<close>, so strings
  are lists of 16-bit words and not lists of (8-bit) HOL characters.
\<close>

type_synonym jsstring = "16 word list"

definition lit :: "string \<Rightarrow> jsstring" where
  "lit s = map (\<lambda>c. of_nat (of_char c)) s"

text \<open>
  Number-to-string conversion inside a template literal, for the integer values that a
  port and an exit code take: the decimal numeral, with a minus sign below zero.
\<close>

fun digits :: "nat \<Rightarrow> jsstring" where
  "digits n = (if n < 10 then [of_nat (48 + n)]
               else digits (n div 10) @ [of_nat (48 + n mod 10)])"

declare digits.simps [simp del]

definition number_to_string :: "int \<Rightarrow> jsstring" where
  "number_to_string i = (if i < 0 then lit ''-'' @ digits (nat (- i)) else digits (nat i))"

text \<open>Exceptions that can be thrown inside the supervisor.\<close>

datatype js_error =
    InvalidCharacterError | FetchTypeError | FetchTimeoutError | CallbackError | KillError

text \<open>
  \<^verbatim>\<open>btoa\<close>: throws \<open>InvalidCharacterError\<close> when a code unit exceeds \<open>0xFF\<close>; otherwise
  the code units are bytes and the result is their base64 encoding with padding.
\<close>

definition b64_alphabet :: string where
  "b64_alphabet = ''ABCDEFGHIJKLMNOPQRSTUVWXYZabcdefghijklmnopqrstuvwxyz0123456789+/''"

definition b64_char :: "nat \<Rightarrow> char" where
  "b64_char n = b64_alphabet ! (n mod 64)"

fun base64_encode :: "nat list \<Rightarrow> string" where
  "base64_encode [] = []"
| "base64_encode [a] =
     [b64_char (a div 4), b64_char ((a mod 4) * 16), CHR ''='', CHR ''='']"
| "base64_encode [a, b] =
     [b64_char (a div 4), b64_char ((a mod 4) * 16 + b div 16),
      b64_char ((b mod 16) * 4), CHR ''='']"
| "base64_encode (a # b # c # rest) =
     [b64_char (a div 4), b64_char ((a mod 4) * 16 + b div 16),
      b64_char ((b mod 16) * 4 + c div 64), b64_char (c mod 64)] @ base64_encode rest"

definition latin1 :: "jsstring \<Rightarrow> bool" where
  "latin1 s = list_all (\<lambda>u. u \<le> 0xFF) s"

definition btoa :: "jsstring \<Rightarrow> js_error + jsstring" where
  "btoa s = (if latin1 s then Inr (lit (base64_encode (map unat s)))
             else Inl InvalidCharacterError)"

text \<open>
  \<^verbatim>\<open>fetch\<close> with an abort signal: the promise rejects on a network error and when the
  2000 ms signal aborts the request, and resolves with the response (its status) otherwise.
\<close>

datatype FetchOutcome = NetworkError | TimedOut | Response int

definition fetch_settle :: "FetchOutcome \<Rightarrow> js_error + int" where
  "fetch_settle out = (case out of
       NetworkError \<Rightarrow> Inl FetchTypeError
     | TimedOut \<Rightarrow> Inl FetchTimeoutError
     | Response status \<Rightarrow> Inr status)"

definition response_ok :: "int \<Rightarrow> bool" where
  "response_ok status = (200 \<le> status \<and> status \<le> 299)"

section \<open>Settings and supervisor state\<close>

text \<open>
  \<^verbatim>\<open>OpenCodeSettings\<close> (types.ts). Its \<^verbatim>\<open>projectDirectory\<close> field is written
  \<open>projectDirectorySetting\<close>, since the supervisor has a field of the same name.
\<close>

record OpenCodeSettings =
  port :: int
  hostname :: jsstring
  autoStart :: bool
  opencodePath :: jsstring
  projectDirectorySetting :: jsstring
  startupTimeout :: int

definition DEFAULT_SETTINGS :: OpenCodeSettings where
  "DEFAULT_SETTINGS = \<lparr> port = 14096, hostname = lit ''127.0.0.1'', autoStart = False,
     opencodePath = lit ''opencode'', projectDirectorySetting = [], startupTimeout = 15000 \<rparr>"

datatype ProcessState = Stopped | Starting | Running | Error

datatype Signal = SIGTERM | SIGKILL

text \<open>
  \<^verbatim>\<open>SpawnConfig\<close>, the arguments of \<^verbatim>\<open>spawn\<close>; of the options, \<^verbatim>\<open>stdio\<close> and
  \<^verbatim>\<open>detached\<close> are the same constants on every path and are left out.
\<close>

record SpawnConfig =
  command :: jsstring
  args :: "jsstring list"
  cwd :: jsstring
  env :: "jsstring \<rightharpoonup> jsstring"

text \<open>
  A spawned child: what it was spawned with, the signals its \<^verbatim>\<open>kill\<close> was called with,
  and whether it has exited (\<^verbatim>\<open>exitCode\<close> or \<^verbatim>\<open>signalCode\<close> is no longer null).
\<close>

record ChildProcess =
  spawned_with :: SpawnConfig
  killed_with :: "Signal list"
  exited :: bool

text \<open>
  A call of the asynchronous \<^verbatim>\<open>start()\<close> is either suspended at one of its awaits or
  has returned. The request of a health probe is fixed when the probe is issued: the URL,
  or the exception that \<^verbatim>\<open>getUrl\<close> threw inside the \<^verbatim>\<open>try\<close> block.
\<close>

datatype Cont =
    AtFirstProbe "js_error + jsstring"
  | AtPollProbe int int "js_error + jsstring"
  | AtSleep int int
  | Returned bool

text \<open>
  The fields of the \<^verbatim>\<open>ProcessManager\<close> class (\<open>process\<close> to \<open>projectDirectory\<close>; the
  handle is the index of the child in \<open>children\<close>), followed by the world around it:
  the calls of the \<^verbatim>\<open>onStateChange\<close> callback in order, every child spawned so far, the
  health requests sent, the pending force-kill timers of \<^verbatim>\<open>stop()\<close>, the reading of
  \<^verbatim>\<open>Date.now()\<close>, and the calls of \<^verbatim>\<open>start()\<close> made so far.
\<close>

record World =
  process :: "nat option"
  state :: ProcessState
  lastError :: "jsstring option"
  earlyExitCode :: "int option"
  settings :: OpenCodeSettings
  workingDirectory :: jsstring
  projectDirectory :: jsstring
  notified :: "ProcessState list"
  children :: "ChildProcess list"
  probes :: "jsstring list"
  kill_timers :: "nat list"
  now :: int
  calls :: "Cont list"

definition constructor :: "OpenCodeSettings \<Rightarrow> jsstring \<Rightarrow> jsstring \<Rightarrow> int \<Rightarrow> World" where
  "constructor s wd pd t = \<lparr> process = None, state = Stopped, lastError = None,
     earlyExitCode = None, settings = s, workingDirectory = wd, projectDirectory = pd,
     notified = [], children = [], probes = [], kill_timers = [], now = t, calls = [] \<rparr>"

section \<open>Operations of the supervisor\<close>

definition updateSettings :: "OpenCodeSettings \<Rightarrow> World \<Rightarrow> World" where
  "updateSettings s w = w\<lparr>settings := s\<rparr>"

definition updateProjectDirectory :: "jsstring \<Rightarrow> World \<Rightarrow> World" where
  "updateProjectDirectory directory w = w\<lparr>projectDirectory := directory\<rparr>"

definition getState :: "World \<Rightarrow> ProcessState" where
  "getState w = state w"

definition getLastError :: "World \<Rightarrow> jsstring option" where
  "getLastError w = lastError w"

definition getUrl :: "World \<Rightarrow> js_error + jsstring" where
  "getUrl w =
     (let baseUrl = lit ''http://'' @ hostname (settings w) @ lit '':''
                    @ number_to_string (port (settings w))
      in case btoa (projectDirectory w) of
           Inl e \<Rightarrow> Inl e
         | Inr encodedPath \<Rightarrow> Inr (baseUrl @ lit ''/'' @ encodedPath))"

definition setState :: "ProcessState \<Rightarrow> World \<Rightarrow> World" where
  "setState st w = w\<lparr>state := st, notified := notified w @ [st]\<rparr>"

definition setError :: "jsstring \<Rightarrow> World \<Rightarrow> World" where
  "setError message w = setState Error (w\<lparr>lastError := Some message\<rparr>)"

definition kill :: "nat \<Rightarrow> Signal \<Rightarrow> World \<Rightarrow> World" where
  "kill pid sig w =
     (if pid < length (children w)
      then w\<lparr>children := (children w)
             [pid := (children w ! pid)\<lparr>killed_with := killed_with (children w ! pid) @ [sig]\<rparr>]\<rparr>
      else w)"

definition stop :: "World \<Rightarrow> World" where
  "stop w = (case process w of
       None \<Rightarrow> setState Stopped w
     | Some proc \<Rightarrow>
         (let w1 = setState Stopped w;
              w2 = w1\<lparr>process := None\<rparr>;
              w3 = kill proc SIGTERM w2
          in w3\<lparr>kill_timers := kill_timers w3 @ [proc]\<rparr>))"

text \<open>The callback of the timer that \<^verbatim>\<open>stop()\<close> sets, run 2000 ms later.\<close>

definition force_kill :: "nat \<Rightarrow> World \<Rightarrow> World" where
  "force_kill proc w =
     (if proc < length (children w) \<and> \<not> exited (children w ! proc)
      then kill proc SIGKILL w else w)"

text \<open>
  \<^verbatim>\<open>checkServerHealth\<close> in its two halves: up to the await of \<^verbatim>\<open>fetch\<close>, and from the
  settled request to the returned value, with the \<^verbatim>\<open>catch\<close> around both.
\<close>

definition health_request :: "World \<Rightarrow> js_error + jsstring" where
  "health_request w = (case getUrl w of
       Inl e \<Rightarrow> Inl e
     | Inr url \<Rightarrow> Inr (url @ lit ''/global/health''))"

definition health_response :: "js_error + jsstring \<Rightarrow> FetchOutcome \<Rightarrow> js_error + bool" where
  "health_response req out =
     (case (case req of
              Inl e \<Rightarrow> Inl e
            | Inr url \<Rightarrow> (case fetch_settle out of
                            Inl e \<Rightarrow> Inl e
                          | Inr status \<Rightarrow> Inr (response_ok status))) of
        Inl e \<Rightarrow> Inr False
      | Inr ok \<Rightarrow> Inr ok)"

definition checkServerHealth :: "World \<Rightarrow> FetchOutcome \<Rightarrow> js_error + bool" where
  "checkServerHealth w out = health_response (health_request w) out"

section \<open>Environment resolver\<close>

text \<open>
  What the resolver reads from the host: \<^verbatim>\<open>os.homedir()\<close>, \<^verbatim>\<open>os.platform()\<close>,
  \<^verbatim>\<open>process.env\<close>, \<^verbatim>\<open>fs.existsSync\<close> and \<^verbatim>\<open>path.join\<close>. The last two are Node
  library functions and stay parameters.
\<close>

record Host =
  homedir :: jsstring
  platform :: jsstring
  process_env :: "jsstring \<rightharpoonup> jsstring"
  existsSync :: "jsstring \<Rightarrow> bool"
  join :: "jsstring list \<Rightarrow> jsstring"

text \<open>\<^verbatim>\<open>v || d\<close> and \<^verbatim>\<open>Boolean(v)\<close> on a value that is a string or undefined.\<close>

definition truthy :: "jsstring option \<Rightarrow> bool" where
  "truthy v = (case v of None \<Rightarrow> False | Some s \<Rightarrow> s \<noteq> [])"

definition or_else :: "jsstring option \<Rightarrow> jsstring \<Rightarrow> jsstring" where
  "or_else v d = (if truthy v then the v else d)"

fun str_includes :: "jsstring \<Rightarrow> jsstring \<Rightarrow> bool" where
  "str_includes [] pat = (pat = [])"
| "str_includes (c # cs) pat = (take (length pat) (c # cs) = pat \<or> str_includes cs pat)"

fun array_join :: "jsstring \<Rightarrow> jsstring list \<Rightarrow> jsstring" where
  "array_join sep [] = []"
| "array_join sep [x] = x"
| "array_join sep (x # y # ys) = x @ sep @ array_join sep (y # ys)"

definition source_cmd :: "jsstring \<Rightarrow> jsstring" where
  \<open>source_cmd path = lit ''source "'' @ path @ lit ''" 2>/dev/null''\<close>

definition nvm_cmd :: "jsstring \<Rightarrow> jsstring \<Rightarrow> jsstring" where
  \<open>nvm_cmd nvmDir nvmSh = lit ''export NVM_DIR="'' @ nvmDir @ lit ''"; '' @ source_cmd nvmSh\<close>

definition path_cmd :: "jsstring list \<Rightarrow> jsstring" where
  \<open>path_cmd existingBrewPaths =
     lit ''export PATH="'' @ array_join (lit '':'') existingBrewPaths @ lit '':$PATH"''\<close>

text \<open>The loop over \<^verbatim>\<open>nvmDirs\<close>, which stops at the first directory holding nvm.sh.\<close>

fun nvm_parts :: "Host \<Rightarrow> jsstring list \<Rightarrow> jsstring list" where
  "nvm_parts h [] = []"
| "nvm_parts h (nvmDir # rest) =
     (let nvmSh = join h [nvmDir, lit ''nvm.sh'']
      in if existsSync h nvmSh then [nvm_cmd nvmDir nvmSh] else nvm_parts h rest)"

definition brewPaths :: "jsstring list" where
  "brewPaths = [lit ''/opt/homebrew/bin'', lit ''/usr/local/bin'']"

definition env_setup_parts :: "Host \<Rightarrow> jsstring \<Rightarrow> bool \<Rightarrow> jsstring list" where
  "env_setup_parts h home isZsh =
     (let profile =
            (if isZsh then
               (let zshrc = join h [home, lit ''.zshrc'']
                in if existsSync h zshrc then [source_cmd zshrc] else [])
             else
               (let nvmDirs = map the (filter truthy
                      [Some (join h [home, lit ''.nvm'']),
                       Some (join h [home, lit ''.config'', lit ''nvm'']),
                       process_env h (lit ''NVM_DIR'')]);
                    bashrc = join h [home, lit ''.bashrc'']
                in nvm_parts h nvmDirs
                   @ (if existsSync h bashrc then [source_cmd bashrc] else [])));
          existingBrewPaths = filter (existsSync h) brewPaths
      in profile @ (if length existingBrewPaths > 0 then [path_cmd existingBrewPaths] else []))"

definition buildUnixEnvSetup :: "Host \<Rightarrow> jsstring \<Rightarrow> bool \<Rightarrow> jsstring" where
  "buildUnixEnvSetup h home isZsh =
     (let parts = env_setup_parts h home isZsh
      in if length parts > 0 then array_join (lit ''; '') parts @ lit '';'' else [])"

definition buildSpawnConfig :: "Host \<Rightarrow> World \<Rightarrow> jsstring \<Rightarrow> SpawnConfig" where
  "buildSpawnConfig h w baseCommand =
     (let home = homedir h; plat = platform h
      in if plat = lit ''win32'' then
           \<lparr> command = lit ''cmd.exe'', args = [lit ''/c'', baseCommand],
             cwd = workingDirectory w, env = process_env h \<rparr>
         else
           (let shell = or_else (process_env h (lit ''SHELL'')) (lit ''/bin/bash'');
                isZsh = str_includes shell (lit ''zsh'');
                envSetup = buildUnixEnvSetup h home isZsh;
                fullCommand = (if envSetup \<noteq> [] then envSetup @ lit '' '' @ baseCommand
                               else baseCommand)
            in \<lparr> command = shell, args = [lit ''-c'', fullCommand],
                 cwd = workingDirectory w,
                 env = (process_env h)
                   (lit ''HOME'' \<mapsto> home,
                    lit ''XDG_CONFIG_HOME'' \<mapsto>
                      or_else (process_env h (lit ''XDG_CONFIG_HOME'')) (home @ lit ''/.config'')) \<rparr>))"

section \<open>Observers attached to a spawned child\<close>

definition on_exit :: "int option \<Rightarrow> World \<Rightarrow> World" where
  "on_exit code w =
     (let w1 = w\<lparr>process := None\<rparr>;
          w2 = (if state w1 = Starting \<and> code \<noteq> None \<and> code \<noteq> Some 0
                then w1\<lparr>earlyExitCode := code\<rparr> else w1)
      in if state w2 = Running then setState Stopped w2 else w2)"

definition on_error :: "jsstring option \<Rightarrow> jsstring \<Rightarrow> World \<Rightarrow> World" where
  "on_error code message w =
     (let w1 = w\<lparr>process := None\<rparr>
      in if code = Some (lit ''ENOENT'')
         then setError (lit ''Executable not found at '' @ [0x27]
                        @ opencodePath (settings w1) @ [0x27]) w1
         else setError (lit ''Failed to start: '' @ message) w1)"

section \<open>A callback that throws and a signal that cannot be sent\<close>








section \<open>start()\<close>

text \<open>
  The repository holds two versions of the supervisor. \<open>EnvResolving\<close> is
  src/ProcessManager.ts, which spawns through the environment resolver; \<open>DirectSpawn\<close> is
  the other ProcessManager source, which spawns the executable itself. They differ in the
  spawn arguments and in the argument of \<^verbatim>\<open>waitForServerOrExit\<close>.
\<close>

datatype Variant = EnvResolving | DirectSpawn

definition spawn_config :: "Variant \<Rightarrow> Host \<Rightarrow> World \<Rightarrow> SpawnConfig" where
  "spawn_config v h w = (case v of
       EnvResolving \<Rightarrow>
         (let baseCmd = opencodePath (settings w) @ lit '' serve --port ''
                @ number_to_string (port (settings w)) @ lit '' --hostname ''
                @ hostname (settings w) @ lit '' --cors app://obsidian.md''
          in buildSpawnConfig h w baseCmd)
     | DirectSpawn \<Rightarrow>
         \<lparr> command = opencodePath (settings w),
           args = [lit ''serve'', lit ''--port'', number_to_string (port (settings w)),
                   lit ''--hostname'', hostname (settings w), lit ''--cors'',
                   lit ''app://obsidian.md''],
           cwd = workingDirectory w, env = process_env h \<rparr>)"

definition spawn :: "SpawnConfig \<Rightarrow> World \<Rightarrow> World" where
  "spawn c w = w\<lparr>process := Some (length (children w)),
                 children := children w
                   @ [\<lparr> spawned_with = c, killed_with = [], exited = False \<rparr>]\<rparr>"

definition poll_deadline :: "Variant \<Rightarrow> World \<Rightarrow> int" where
  "poll_deadline v w = (case v of
       EnvResolving \<Rightarrow> 15000
     | DirectSpawn \<Rightarrow> startupTimeout (settings w))"

definition send_probe :: "js_error + jsstring \<Rightarrow> World \<Rightarrow> World" where
  "send_probe req w = (case req of
       Inl e \<Rightarrow> w
     | Inr url \<Rightarrow> w\<lparr>probes := probes w @ [url]\<rparr>)"

text \<open>From the return of \<^verbatim>\<open>waitForServerOrExit\<close> to the return of \<^verbatim>\<open>start\<close>.\<close>

definition start_finish :: "bool \<Rightarrow> World \<Rightarrow> Cont \<times> World" where
  "start_finish ready w =
     (if ready then (Returned True, setState Running w)
      else if state w = Error then (Returned False, w)
      else
        (let w1 = stop w
         in case earlyExitCode w1 of
              Some c \<Rightarrow>
                (Returned False,
                 setError (lit ''Process exited unexpectedly (exit code ''
                           @ number_to_string c @ lit '')'') w1)
            | None \<Rightarrow>
                if process w1 = None
                then (Returned False,
                      setError (lit ''Process exited before server became ready'') w1)
                else (Returned False,
                      setError (lit ''Server failed to start within timeout'') w1)))"

text \<open>
  \<^verbatim>\<open>waitForServerOrExit\<close>: the test of the loop and the body up to the await of the
  probe; the probe's result; the end of the sleep, which leads back to the test.
\<close>

definition poll_head :: "int \<Rightarrow> int \<Rightarrow> World \<Rightarrow> Cont \<times> World" where
  "poll_head startTime timeoutMs w =
     (if now w - startTime < timeoutMs then
        (if process w = None then start_finish False w
         else (AtPollProbe startTime timeoutMs (health_request w),
               send_probe (health_request w) w))
      else start_finish False w)"

definition poll_probe_settled ::
  "int \<Rightarrow> int \<Rightarrow> js_error + jsstring \<Rightarrow> FetchOutcome \<Rightarrow> World \<Rightarrow> Cont \<times> World" where
  "poll_probe_settled startTime timeoutMs req out w =
     (if health_response req out = Inr True then start_finish True w
      else (AtSleep startTime timeoutMs, w))"

text \<open>From the result of the first probe to the first await inside the poll loop.\<close>

definition first_probe_settled ::
  "Variant \<Rightarrow> Host \<Rightarrow> js_error + jsstring \<Rightarrow> FetchOutcome \<Rightarrow> World \<Rightarrow> Cont \<times> World" where
  "first_probe_settled v h req out w =
     (if health_response req out = Inr True then (Returned True, setState Running w)
      else
        (let w1 = spawn (spawn_config v h w) w
         in poll_head (now w1) (poll_deadline v w1) w1))"

text \<open>From the call of \<^verbatim>\<open>start()\<close> to its first await or early return.\<close>

definition start_begin :: "World \<Rightarrow> Cont \<times> World" where
  "start_begin w =
     (if state w = Running \<or> state w = Starting then (Returned True, w)
      else
        (let w1 = setState Starting w;
             w2 = w1\<lparr>lastError := None, earlyExitCode := None\<rparr>
         in if projectDirectory w2 = []
            then (Returned False,
                  setError (lit ''Project directory (vault) not configured'') w2)
            else (AtFirstProbe (health_request w2), send_probe (health_request w2) w2)))"

section \<open>Interleaving of calls, observers and timers\<close>

text \<open>
  Between two awaits the supervisor runs without interruption. At the await of a probe
  and at the await of the sleep anything else may run first: another public call, the exit
  or error observer of any child spawned so far, a force-kill timer, and the clock may
  show any reading. The return of \<^verbatim>\<open>checkServerHealth\<close> and of
  \<^verbatim>\<open>waitForServerOrExit\<close> to the awaiting \<^verbatim>\<open>start()\<close> is one step with what
  follows it. An action that is not enabled (a call id or child that does not exist, a
  call that waits for something else, a child that has exited already) leaves the world
  unchanged.
\<close>

datatype Action =
    CallStart
  | CallStop
  | CallUpdateSettings OpenCodeSettings
  | CallUpdateProjectDirectory jsstring
  | CallGetState
  | CallGetLastError
  | CallGetUrl
  | FetchSettled nat FetchOutcome
  | SleepElapsed nat
  | ChildExit nat "int option" "jsstring option"
  | ChildError nat "jsstring option" jsstring
  | KillTimerFired nat
  | ClockReads int

definition resume_fetch ::
  "Variant \<Rightarrow> Host \<Rightarrow> Cont \<Rightarrow> FetchOutcome \<Rightarrow> World \<Rightarrow> Cont \<times> World" where
  "resume_fetch v h c out w = (case c of
       AtFirstProbe req \<Rightarrow> first_probe_settled v h req out w
     | AtPollProbe startTime timeoutMs req \<Rightarrow> poll_probe_settled startTime timeoutMs req out w
     | AtSleep startTime timeoutMs \<Rightarrow> (c, w)
     | Returned b \<Rightarrow> (c, w))"

definition resume_sleep :: "Cont \<Rightarrow> World \<Rightarrow> Cont \<times> World" where
  "resume_sleep c w = (case c of
       AtSleep startTime timeoutMs \<Rightarrow> poll_head startTime timeoutMs w
     | AtFirstProbe req \<Rightarrow> (c, w)
     | AtPollProbe startTime timeoutMs req \<Rightarrow> (c, w)
     | Returned b \<Rightarrow> (c, w))"

definition mark_exited :: "nat \<Rightarrow> World \<Rightarrow> World" where
  "mark_exited pid w = w\<lparr>children := (children w)[pid := (children w ! pid)\<lparr>exited := True\<rparr>]\<rparr>"

fun step :: "Variant \<Rightarrow> Host \<Rightarrow> World \<Rightarrow> Action \<Rightarrow> World" where
  "step v h w CallStart =
     (case start_begin w of (c, w') \<Rightarrow> w'\<lparr>calls := calls w' @ [c]\<rparr>)"
| "step v h w CallStop = stop w"
| "step v h w (CallUpdateSettings s) = updateSettings s w"
| "step v h w (CallUpdateProjectDirectory d) = updateProjectDirectory d w"
| "step v h w CallGetState = w"
| "step v h w CallGetLastError = w"
| "step v h w CallGetUrl = w"
| "step v h w (FetchSettled i out) =
     (if i < length (calls w)
      then (case resume_fetch v h (calls w ! i) out w of
              (c, w') \<Rightarrow> w'\<lparr>calls := (calls w')[i := c]\<rparr>)
      else w)"
| "step v h w (SleepElapsed i) =
     (if i < length (calls w)
      then (case resume_sleep (calls w ! i) w of
              (c, w') \<Rightarrow> w'\<lparr>calls := (calls w')[i := c]\<rparr>)
      else w)"
| "step v h w (ChildExit pid code signal) =
     (if pid < length (children w) \<and> \<not> exited (children w ! pid)
      then on_exit code (mark_exited pid w) else w)"
| "step v h w (ChildError pid code message) =
     (if pid < length (children w) then on_error code message w else w)"
| "step v h w (KillTimerFired pid) =
     (if pid \<in> set (kill_timers w)
      then force_kill pid (w\<lparr>kill_timers := remove1 pid (kill_timers w)\<rparr>) else w)"
| "step v h w (ClockReads t) = w\<lparr>now := t\<rparr>"

definition run :: "Variant \<Rightarrow> Host \<Rightarrow> World \<Rightarrow> Action list \<Rightarrow> World" where
  "run v h w acts = foldl (step v h) w acts"

section \<open>Reachable states and sample inputs\<close>

definition lastError_nonempty :: "World \<Rightarrow> bool" where
  "lastError_nonempty w = (case lastError w of None \<Rightarrow> False | Some m \<Rightarrow> m \<noteq> [])"

definition error_has_message :: "World \<Rightarrow> bool" where
  "error_has_message w = (state w = Error \<longrightarrow> lastError_nonempty w)"

text \<open>A host with an empty environment and nothing on disk, and one with nvm and /usr/local/bin.\<close>

definition bare_host :: Host where
  "bare_host = \<lparr> homedir = lit ''/home/user'', platform = lit ''linux'',
     process_env = Map.empty, existsSync = (\<lambda>p. False), join = array_join (lit ''/'') \<rparr>"

definition unix_host :: Host where
  "unix_host = \<lparr> homedir = lit ''/home/user'', platform = lit ''linux'',
     process_env = Map.empty,
     existsSync = (\<lambda>p. p = lit ''/home/user/.nvm/nvm.sh'' \<or> p = lit ''/usr/local/bin''),
     join = array_join (lit ''/'') \<rparr>"

text \<open>
  A supervisor constructed with the default settings for the vault /vault, one constructed
  without a project directory, and one whose configured startup timeout is 5000 ms.
\<close>

definition vault_world :: World where
  "vault_world = constructor DEFAULT_SETTINGS (lit ''/work'') (lit ''/vault'') 0"

definition unconfigured_world :: World where
  "unconfigured_world = constructor DEFAULT_SETTINGS (lit ''/work'') [] 0"

definition short_timeout_world :: World where
  "short_timeout_world =
     constructor (DEFAULT_SETTINGS\<lparr>startupTimeout := 5000\<rparr>) (lit ''/work'') (lit ''/vault'') 0"

text \<open>
  A start whose probes all fail while the child stays alive: the first probe and the first
  probe of the poll loop fail, and when the 500 ms sleep ends the clock shows \<open>t\<close>.
\<close>

definition never_healthy :: "int \<Rightarrow> Action list" where
  "never_healthy t = [CallStart, FetchSettled 0 NetworkError, FetchSettled 0 NetworkError,
                      ClockReads t, SleepElapsed 0]"

text \<open>A supervisor polling for its spawned child, and one that serves after a 200.\<close>

definition polling_world :: World where
  "polling_world = run EnvResolving bare_host vault_world [CallStart, FetchSettled 0 NetworkError]"

definition serving_world :: World where
  "serving_world = run EnvResolving bare_host vault_world
     [CallStart, FetchSettled 0 NetworkError, FetchSettled 0 (Response 200)]"




section \<open>Properties\<close>

subsection \<open>Evaluation lemmas\<close>

lemma lit_Nil_iff [simp]: "lit s = [] \<longleftrightarrow> s = []"
  by (simp add: lit_def)

text \<open>The test vectors of RFC 4648 for the base64 encoder behind \<^verbatim>\<open>btoa\<close>.\<close>

lemma base64_rfc4648_vectors:
  "btoa [] = Inr []"
  "btoa (lit ''f'') = Inr (lit ''Zg=='')"
  "btoa (lit ''fo'') = Inr (lit ''Zm8='')"
  "btoa (lit ''foo'') = Inr (lit ''Zm9v'')"
  "btoa (lit ''foob'') = Inr (lit ''Zm9vYg=='')"
  "btoa (lit ''fooba'') = Inr (lit ''Zm9vYmE='')"
  "btoa (lit ''foobar'') = Inr (lit ''Zm9vYmFy'')"
  by (simp_all add: btoa_def latin1_def lit_def b64_char_def b64_alphabet_def)

lemma health_response_failed [simp]:
  "health_response req NetworkError = Inr False"
  "health_response req TimedOut = Inr False"
  by (simp_all add: health_response_def fetch_settle_def split: sum.splits)

lemma health_response_ok [simp]:
  "health_response (Inr url) (Response status) = Inr (200 \<le> status \<and> status \<le> 299)"
  by (simp add: health_response_def fetch_settle_def response_ok_def)

lemmas world_eval = run_def start_begin_def first_probe_settled_def poll_head_def
  poll_probe_settled_def start_finish_def resume_fetch_def resume_sleep_def setState_def
  setError_def stop_def kill_def spawn_def send_probe_def poll_deadline_def constructor_def
  never_healthy_def Let_def

lemma vault_url: "getUrl vault_world = Inr (lit ''http://127.0.0.1:14096/L3ZhdWx0'')"
  by (simp add: getUrl_def vault_world_def constructor_def DEFAULT_SETTINGS_def btoa_def
        latin1_def lit_def number_to_string_def digits.simps b64_char_def b64_alphabet_def)

lemma vault_health_request:
  "health_request vault_world = Inr (lit ''http://127.0.0.1:14096/L3ZhdWx0/global/health'')"
  by (simp add: health_request_def vault_url) (simp add: lit_def)

lemma health_request_cong:
  "settings w = settings w' \<Longrightarrow> projectDirectory w = projectDirectory w' \<Longrightarrow>
     health_request w = health_request w'"
  by (simp add: health_request_def getUrl_def)

lemma health_request_vault:
  "hostname (settings w) = lit ''127.0.0.1'' \<Longrightarrow> port (settings w) = 14096 \<Longrightarrow>
   projectDirectory w = lit ''/vault'' \<Longrightarrow>
     health_request w = Inr (lit ''http://127.0.0.1:14096/L3ZhdWx0/global/health'')"
  using vault_health_request
  by (simp add: health_request_def getUrl_def vault_world_def constructor_def
        DEFAULT_SETTINGS_def)

lemma polling_world_fields:
  "state polling_world = Starting" "process polling_world = Some 0"
  "lastError polling_world = None" "earlyExitCode polling_world = None"
  "length (children polling_world) = 1"
  by (simp_all add: polling_world_def world_eval vault_world_def DEFAULT_SETTINGS_def
        health_request_vault)

lemma serving_world_fields:
  "state serving_world = Running" "process serving_world = Some 0"
  "lastError serving_world = None" "earlyExitCode serving_world = None"
  by (simp_all add: serving_world_def world_eval vault_world_def DEFAULT_SETTINGS_def
        health_request_vault)

subsection \<open>The error state always carries a message\<close>

lemma ehm_setError: "m \<noteq> [] \<Longrightarrow> error_has_message (setError m w)"
  by (simp add: error_has_message_def lastError_nonempty_def setError_def setState_def)

lemma ehm_setState: "st \<noteq> Error \<Longrightarrow> error_has_message (setState st w)"
  by (simp add: error_has_message_def setState_def)

lemma state_stop: "state (stop w) = Stopped"
  by (simp add: stop_def setState_def kill_def Let_def split: option.splits)

lemma process_stop: "process (stop w) = None"
  by (simp add: stop_def setState_def kill_def Let_def split: option.splits)

lemma ehm_stop: "error_has_message (stop w)"
  by (simp add: error_has_message_def state_stop)

lemma ehm_on_exit: "error_has_message w \<Longrightarrow> error_has_message (on_exit code w)"
  by (auto simp: error_has_message_def lastError_nonempty_def on_exit_def setState_def Let_def
        split: if_splits)

lemma ehm_on_error: "error_has_message (on_error code message w)"
  by (simp add: on_error_def Let_def ehm_setError)

lemma ehm_start_finish:
  "error_has_message w \<Longrightarrow> error_has_message (snd (start_finish ready w))"
  by (simp add: start_finish_def Let_def ehm_setError ehm_setState split: option.splits)

lemma ehm_send_probe: "error_has_message w \<Longrightarrow> error_has_message (send_probe req w)"
  by (simp add: send_probe_def error_has_message_def lastError_nonempty_def split: sum.splits)

lemma ehm_poll_head: "error_has_message w \<Longrightarrow> error_has_message (snd (poll_head st t w))"
  by (simp add: poll_head_def ehm_start_finish ehm_send_probe)

lemma ehm_poll_probe_settled:
  "error_has_message w \<Longrightarrow> error_has_message (snd (poll_probe_settled st t req out w))"
  by (simp add: poll_probe_settled_def ehm_start_finish)

lemma ehm_spawn: "error_has_message w \<Longrightarrow> error_has_message (spawn c w)"
  by (simp add: spawn_def error_has_message_def lastError_nonempty_def)

lemma ehm_first_probe_settled:
  "error_has_message w \<Longrightarrow> error_has_message (snd (first_probe_settled v h req out w))"
  by (simp add: first_probe_settled_def Let_def ehm_poll_head ehm_spawn ehm_setState)

lemma ehm_start_begin: "error_has_message w \<Longrightarrow> error_has_message (snd (start_begin w))"
  by (simp add: start_begin_def Let_def ehm_setError)
     (simp add: error_has_message_def send_probe_def setState_def split: sum.splits)

lemma ehm_calls_update [simp]: "error_has_message (w\<lparr>calls := cs\<rparr>) = error_has_message w"
  by (simp add: error_has_message_def lastError_nonempty_def)

lemma ehm_kill: "error_has_message w \<Longrightarrow> error_has_message (kill p s w)"
  by (simp add: kill_def error_has_message_def lastError_nonempty_def)

lemma ehm_step:
  assumes h: "error_has_message w"
  shows "error_has_message (step v h w a)"
proof (cases a)
  case CallStart
  with ehm_start_begin [OF h] show ?thesis by (simp add: case_prod_beta)
next
  case CallStop
  then show ?thesis by (simp add: ehm_stop)
next
  case (FetchSettled i out)
  show ?thesis
  proof (cases "calls w ! i")
    case (AtFirstProbe req)
    with FetchSettled ehm_first_probe_settled [OF h, of v h req out] h show ?thesis
      by (simp add: resume_fetch_def case_prod_beta)
  next
    case (AtPollProbe st t req)
    with FetchSettled ehm_poll_probe_settled [OF h, of st t req out] h show ?thesis
      by (simp add: resume_fetch_def case_prod_beta)
  next
    case (AtSleep st t)
    with FetchSettled h show ?thesis by (simp add: resume_fetch_def)
  next
    case (Returned b)
    with FetchSettled h show ?thesis by (simp add: resume_fetch_def)
  qed
next
  case (SleepElapsed i)
  show ?thesis
  proof (cases "calls w ! i")
    case (AtSleep st t)
    with SleepElapsed ehm_poll_head [OF h, of st t] h show ?thesis
      by (simp add: resume_sleep_def case_prod_beta)
  qed (use SleepElapsed h in \<open>simp_all add: resume_sleep_def\<close>)
next
  case (ChildExit pid code signal)
  from h have "error_has_message (mark_exited pid w)"
    by (simp add: mark_exited_def error_has_message_def lastError_nonempty_def)
  with ChildExit h show ?thesis by (simp add: ehm_on_exit)
next
  case (ChildError pid code message)
  with h show ?thesis by (simp add: ehm_on_error)
next
  case (KillTimerFired pid)
  from h have "error_has_message (w\<lparr>kill_timers := remove1 pid (kill_timers w)\<rparr>)"
    by (simp add: error_has_message_def lastError_nonempty_def)
  with KillTimerFired h show ?thesis by (simp add: force_kill_def ehm_kill)
qed (use h in \<open>simp_all add: error_has_message_def lastError_nonempty_def updateSettings_def
       updateProjectDirectory_def\<close>)

lemma ehm_run: "error_has_message w \<Longrightarrow> error_has_message (run v h w acts)"
  unfolding run_def by (induction acts arbitrary: w) (simp_all add: ehm_step)

lemma ehm_constructor: "error_has_message (constructor s wd pd t)"
  by (simp add: error_has_message_def constructor_def)

subsection \<open>The environment resolver's setup parts\<close>

lemma nvm_parts_guarded:
  "p \<in> set (nvm_parts h dirs) \<Longrightarrow>
     \<exists>nvmDir \<in> set dirs. p = nvm_cmd nvmDir (join h [nvmDir, lit ''nvm.sh''])
        \<and> existsSync h (join h [nvmDir, lit ''nvm.sh''])"
  by (induction dirs) (auto simp: Let_def split: if_splits)

lemma unix_host_parts:
  "env_setup_parts unix_host (lit ''/home/user'') False =
     [nvm_cmd (lit ''/home/user/.nvm'') (lit ''/home/user/.nvm/nvm.sh''),
      path_cmd [lit ''/usr/local/bin'']]"
  by (simp add: env_setup_parts_def unix_host_def truthy_def brewPaths_def Let_def)
     (simp add: lit_def)

subsection \<open>Failure classification after polling\<close>

lemma lit_messages_differ:
  "lit ''Process exited before server became ready''
     \<noteq> lit ''Server failed to start within timeout''"
  "lit ''Process exited unexpectedly (exit code '' @ x
     \<noteq> lit ''Server failed to start within timeout''"
  by (simp_all add: lit_def)

text \<open>
  The third branch of the classification cannot be taken: \<^verbatim>\<open>stop()\<close> has cleared the
  handle before it is tested, so \<^verbatim>\<open>start()\<close> never sets the timeout message.
\<close>

lemma start_finish_never_sets_timeout_message:
  "lastError (snd (start_finish ready w)) = Some (lit ''Server failed to start within timeout'')
     \<Longrightarrow> lastError w = Some (lit ''Server failed to start within timeout'')"
  by (simp add: start_finish_def Let_def process_stop setError_def setState_def
        lit_messages_differ split: if_splits option.splits)

text \<open>
  C1 (the code departs from the claim). The child of \<open>vault_world\<close> is spawned, never
  becomes healthy and never exits; when the sleep of the poll loop ends the clock shows
  15000 ms, so the loop leaves on its deadline. \<^verbatim>\<open>start()\<close> has returned false, the child
  has received SIGTERM and has not exited, and the recorded message is the one for a
  vanished handle, not the one for the timeout. The other supervisor source records the
  same message.
\<close>

theorem timeout_run_reports_premature_exit:
  "calls (run EnvResolving bare_host vault_world (never_healthy 15000)) = [Returned False]
   \<and> state (run EnvResolving bare_host vault_world (never_healthy 15000)) = Error
   \<and> map exited (children (run EnvResolving bare_host vault_world (never_healthy 15000)))
       = [False]
   \<and> map killed_with (children (run EnvResolving bare_host vault_world (never_healthy 15000)))
       = [[SIGTERM]]
   \<and> lastError (run EnvResolving bare_host vault_world (never_healthy 15000))
       = Some (lit ''Process exited before server became ready'')
   \<and> lastError (run EnvResolving bare_host vault_world (never_healthy 15000))
       \<noteq> Some (lit ''Server failed to start within timeout'')
   \<and> lastError (run DirectSpawn bare_host vault_world (never_healthy 15000))
       = Some (lit ''Process exited before server became ready'')"
  by (simp add: world_eval vault_world_def DEFAULT_SETTINGS_def health_request_vault
        lit_messages_differ)

subsection \<open>Deadline of the readiness poll\<close>

text \<open>
  C2 (the code departs from the claim in src/ProcessManager.ts). The configured startup
  timeout is 5000 ms and the clock shows 6000 ms when the sleep of the poll loop ends. The
  supervisor of src/ProcessManager.ts is still polling, against a deadline of 15000 ms; the
  other supervisor source, run on the same input, has given up on its deadline of 5000 ms.
\<close>

theorem hardcoded_deadline_ignores_setting:
  "startupTimeout (settings short_timeout_world) = 5000
   \<and> calls (run EnvResolving bare_host short_timeout_world (never_healthy 6000))
       = [AtPollProbe 0 15000 (Inr (lit ''http://127.0.0.1:14096/L3ZhdWx0/global/health''))]
   \<and> state (run EnvResolving bare_host short_timeout_world (never_healthy 6000)) = Starting
   \<and> poll_deadline EnvResolving short_timeout_world = 15000
   \<and> calls (run DirectSpawn bare_host short_timeout_world (never_healthy 6000))
       = [Returned False]
   \<and> poll_deadline DirectSpawn short_timeout_world = 5000"
  by (simp add: world_eval short_timeout_world_def DEFAULT_SETTINGS_def health_request_vault)

subsection \<open>lastError and the error state\<close>

text \<open>
  C3 (as stated, refuted). A supervisor without a project directory is started and then
  stopped: \<^verbatim>\<open>start()\<close> records its message and enters \<open>Error\<close>, \<^verbatim>\<open>stop()\<close> moves to
  \<open>Stopped\<close> and leaves the message in place.
\<close>

theorem lastError_iff_error_counterexample:
  "\<not> (lastError_nonempty (run EnvResolving bare_host unconfigured_world [CallStart, CallStop])
        \<longleftrightarrow> state (run EnvResolving bare_host unconfigured_world [CallStart, CallStop]) = Error)"
  by (simp add: world_eval unconfigured_world_def lastError_nonempty_def)

text \<open>
  C3 (amended). In every state reached from a freshly constructed supervisor by any
  sequence of public calls, observer events, timers and clock readings, in either version
  of the supervisor, a state of \<open>Error\<close> comes with a non-empty \<open>lastError\<close>.
\<close>

theorem error_state_has_message:
  "state (run v h (constructor s wd pd t) acts) = Error \<Longrightarrow>
     lastError_nonempty (run v h (constructor s wd pd t) acts)"
  using ehm_run [OF ehm_constructor, of v h s wd pd t acts]
  by (simp add: error_has_message_def)

theorem error_state_has_message_witness:
  "state (run EnvResolving bare_host (constructor DEFAULT_SETTINGS (lit ''/work'') [] 0)
            [CallStart]) = Error
   \<and> lastError_nonempty (run EnvResolving bare_host
        (constructor DEFAULT_SETTINGS (lit ''/work'') [] 0) [CallStart])"
proof -
  have e: "state (run EnvResolving bare_host (constructor DEFAULT_SETTINGS (lit ''/work'') [] 0)
            [CallStart]) = Error"
    by (simp add: world_eval)
  from e error_state_has_message [OF e] show ?thesis by simp
qed

subsection \<open>start() while running or starting\<close>

text \<open>
  C4. Called in state \<open>Running\<close> or \<open>Starting\<close>, \<^verbatim>\<open>start()\<close> returns true at once and
  leaves the whole world as it was: no field of the supervisor changes, no callback runs,
  no probe is sent and no child is spawned. As a step, the call only adds its own result.
\<close>

theorem start_idempotent:
  "state w = Running \<or> state w = Starting \<Longrightarrow>
     start_begin w = (Returned True, w)
     \<and> step v h w CallStart = w\<lparr>calls := calls w @ [Returned True]\<rparr>"
  by (auto simp: start_begin_def)

theorem start_idempotent_witness:
  "state polling_world = Starting \<and> state serving_world = Running
   \<and> start_begin polling_world = (Returned True, polling_world)
   \<and> start_begin serving_world = (Returned True, serving_world)"
proof -
  have p: "state polling_world = Running \<or> state polling_world = Starting"
    by (simp add: polling_world_fields)
  have s: "state serving_world = Running \<or> state serving_world = Starting"
    by (simp add: serving_world_fields)
  from start_idempotent [OF p] start_idempotent [OF s] show ?thesis
    by (simp add: polling_world_fields serving_world_fields)
qed

subsection \<open>stop()\<close>






subsection \<open>Exit observer\<close>

text \<open>
  C6. The exit observer records a code that is neither null nor zero as the early exit code
  when the state is \<open>Starting\<close>; in state \<open>Running\<close> it moves to \<open>Stopped\<close> and leaves
  \<open>lastError\<close> and the early exit code untouched; and it always clears the handle.
\<close>

theorem exit_observer:
  "(state w = Starting \<and> code = Some c \<and> c \<noteq> 0 \<longrightarrow> earlyExitCode (on_exit code w) = Some c)
   \<and> (state w = Running \<longrightarrow>
        state (on_exit code w) = Stopped \<and> lastError (on_exit code w) = lastError w
        \<and> earlyExitCode (on_exit code w) = earlyExitCode w)
   \<and> process (on_exit code w) = None"
  by (simp add: on_exit_def setState_def Let_def)

theorem exit_observer_witness:
  "state polling_world = Starting \<and> earlyExitCode (on_exit (Some 3) polling_world) = Some 3
   \<and> state serving_world = Running \<and> state (on_exit (Some 3) serving_world) = Stopped
   \<and> lastError (on_exit (Some 3) serving_world) = None
   \<and> process serving_world = Some 0 \<and> process (on_exit (Some 3) serving_world) = None"
  using exit_observer [of polling_world "Some 3" 3] exit_observer [of serving_world "Some 3" 3]
  by (simp add: polling_world_fields serving_world_fields)

subsection \<open>Health probe\<close>

text \<open>
  C7. \<^verbatim>\<open>checkServerHealth\<close> always returns a boolean and never an exception. It returns
  true exactly when the URL could be built and the response has a status from 200 to 299;
  a network error, a timed-out request and any other status give false.
\<close>

theorem health_probe:
  "(\<exists>b. checkServerHealth w out = Inr b)
   \<and> (checkServerHealth w out = Inr True \<longleftrightarrow>
        (\<exists>url. getUrl w = Inr url)
        \<and> (\<exists>status. out = Response status \<and> 200 \<le> status \<and> status \<le> 299))
   \<and> (out = NetworkError \<or> out = TimedOut
        \<or> (\<exists>status. out = Response status \<and> \<not> (200 \<le> status \<and> status \<le> 299))
       \<longrightarrow> checkServerHealth w out = Inr False)"
  by (auto simp: checkServerHealth_def health_response_def health_request_def fetch_settle_def
        response_ok_def split: sum.splits FetchOutcome.splits)

theorem health_probe_witness:
  "checkServerHealth vault_world NetworkError = Inr False
   \<and> checkServerHealth vault_world TimedOut = Inr False
   \<and> checkServerHealth vault_world (Response 503) = Inr False
   \<and> checkServerHealth vault_world (Response 200) = Inr True"
  using health_probe [of vault_world NetworkError] health_probe [of vault_world TimedOut]
    health_probe [of vault_world "Response 503"] health_probe [of vault_world "Response 200"]
    vault_url
  by simp

subsection \<open>Unix environment setup\<close>

text \<open>
  C8. For every host (existence oracle, environment, \<^verbatim>\<open>path.join\<close>), home directory and
  shell kind, the setup string is its parts joined by \<open>; \<close> and closed by \<open>;\<close>, and every
  part is one of three commands: a \<open>source\<close> of the zsh or bash profile, which exists, with
  stderr sent to /dev/null; an export of \<open>NVM_DIR\<close> followed by a \<open>source\<close> of that
  directory's nvm.sh, which exists, with stderr sent to /dev/null; or an export of \<open>PATH\<close>
  that prepends a non-empty list of the two package-manager directories, each of which
  exists.
\<close>

theorem env_setup_guarded:
  \<open>buildUnixEnvSetup h home isZsh =
      (if env_setup_parts h home isZsh = [] then []
       else array_join (lit ''; '') (env_setup_parts h home isZsh) @ lit '';'')
   \<and> (\<forall>p \<in> set (env_setup_parts h home isZsh).
        (\<exists>path. p = lit ''source "'' @ path @ lit ''" 2>/dev/null''
            \<and> path = join h [home, lit (if isZsh then ''.zshrc'' else ''.bashrc'')]
            \<and> existsSync h path)
      \<or> (\<exists>nvmDir nvmSh. p = lit ''export NVM_DIR="'' @ nvmDir @ lit ''"; ''
                              @ lit ''source "'' @ nvmSh @ lit ''" 2>/dev/null''
            \<and> \<not> isZsh \<and> nvmSh = join h [nvmDir, lit ''nvm.sh''] \<and> existsSync h nvmSh)
      \<or> (\<exists>dirs. p = lit ''export PATH="'' @ array_join (lit '':'') dirs @ lit '':$PATH"''
            \<and> dirs \<noteq> [] \<and> (\<forall>d \<in> set dirs. d \<in> set brewPaths \<and> existsSync h d)))\<close>
proof (intro conjI ballI)
  show "buildUnixEnvSetup h home isZsh =
      (if env_setup_parts h home isZsh = [] then []
       else array_join (lit ''; '') (env_setup_parts h home isZsh) @ lit '';'')"
    by (simp add: buildUnixEnvSetup_def Let_def)
next
  fix p assume "p \<in> set (env_setup_parts h home isZsh)"
  then consider
      (zsh) "isZsh" "existsSync h (join h [home, lit ''.zshrc''])"
            "p = source_cmd (join h [home, lit ''.zshrc''])"
    | (nvm) "\<not> isZsh" "\<exists>dirs. p \<in> set (nvm_parts h dirs)"
    | (bash) "\<not> isZsh" "existsSync h (join h [home, lit ''.bashrc''])"
            "p = source_cmd (join h [home, lit ''.bashrc''])"
    | (brew) "filter (existsSync h) brewPaths \<noteq> []"
            "p = path_cmd (filter (existsSync h) brewPaths)"
    by (auto simp: env_setup_parts_def Let_def simp del: nvm_parts.simps split: if_splits)
  then show \<open>(\<exists>path. p = lit ''source "'' @ path @ lit ''" 2>/dev/null''
            \<and> path = join h [home, lit (if isZsh then ''.zshrc'' else ''.bashrc'')]
            \<and> existsSync h path)
      \<or> (\<exists>nvmDir nvmSh. p = lit ''export NVM_DIR="'' @ nvmDir @ lit ''"; ''
                              @ lit ''source "'' @ nvmSh @ lit ''" 2>/dev/null''
            \<and> \<not> isZsh \<and> nvmSh = join h [nvmDir, lit ''nvm.sh''] \<and> existsSync h nvmSh)
      \<or> (\<exists>dirs. p = lit ''export PATH="'' @ array_join (lit '':'') dirs @ lit '':$PATH"''
            \<and> dirs \<noteq> [] \<and> (\<forall>d \<in> set dirs. d \<in> set brewPaths \<and> existsSync h d))\<close>
  proof cases
    case zsh
    then show ?thesis by (simp add: source_cmd_def)
  next
    case nvm
    then obtain dirs where "p \<in> set (nvm_parts h dirs)" by blast
    from nvm_parts_guarded [OF this] nvm(1) show ?thesis
      by (auto simp: nvm_cmd_def source_cmd_def)
  next
    case bash
    then show ?thesis by (simp add: source_cmd_def)
  next
    case brew
    then show ?thesis
      by (intro disjI2, intro exI [of _ "filter (existsSync h) brewPaths"])
         (simp add: path_cmd_def)
  qed
qed

theorem env_setup_guarded_witness:
  \<open>env_setup_parts unix_host (lit ''/home/user'') False =
      [nvm_cmd (lit ''/home/user/.nvm'') (lit ''/home/user/.nvm/nvm.sh''),
       path_cmd [lit ''/usr/local/bin'']]
   \<and> buildUnixEnvSetup unix_host (lit ''/home/user'') False =
      lit (''export NVM_DIR="/home/user/.nvm"; source "/home/user/.nvm/nvm.sh" 2>/dev/null; ''
           @ ''export PATH="/usr/local/bin:$PATH";'')
   \<and> ((\<exists>path. nvm_cmd (lit ''/home/user/.nvm'') (lit ''/home/user/.nvm/nvm.sh'')
                 = lit ''source "'' @ path @ lit ''" 2>/dev/null''
            \<and> path = join unix_host [lit ''/home/user'', lit ''.bashrc'']
            \<and> existsSync unix_host path)
      \<or> (\<exists>nvmDir nvmSh. nvm_cmd (lit ''/home/user/.nvm'') (lit ''/home/user/.nvm/nvm.sh'')
                 = lit ''export NVM_DIR="'' @ nvmDir @ lit ''"; ''
                   @ lit ''source "'' @ nvmSh @ lit ''" 2>/dev/null''
            \<and> nvmSh = join unix_host [nvmDir, lit ''nvm.sh''] \<and> existsSync unix_host nvmSh)
      \<or> (\<exists>dirs. nvm_cmd (lit ''/home/user/.nvm'') (lit ''/home/user/.nvm/nvm.sh'')
                 = lit ''export PATH="'' @ array_join (lit '':'') dirs @ lit '':$PATH"''
            \<and> dirs \<noteq> []
            \<and> (\<forall>d \<in> set dirs. d \<in> set brewPaths \<and> existsSync unix_host d)))
   \<and> ((\<exists>path. path_cmd [lit ''/usr/local/bin'']
                 = lit ''source "'' @ path @ lit ''" 2>/dev/null''
            \<and> path = join unix_host [lit ''/home/user'', lit ''.bashrc'']
            \<and> existsSync unix_host path)
      \<or> (\<exists>nvmDir nvmSh. path_cmd [lit ''/usr/local/bin'']
                 = lit ''export NVM_DIR="'' @ nvmDir @ lit ''"; ''
                   @ lit ''source "'' @ nvmSh @ lit ''" 2>/dev/null''
            \<and> nvmSh = join unix_host [nvmDir, lit ''nvm.sh''] \<and> existsSync unix_host nvmSh)
      \<or> (\<exists>dirs. path_cmd [lit ''/usr/local/bin'']
                 = lit ''export PATH="'' @ array_join (lit '':'') dirs @ lit '':$PATH"''
            \<and> dirs \<noteq> []
            \<and> (\<forall>d \<in> set dirs. d \<in> set brewPaths \<and> existsSync unix_host d)))\<close>
proof -
  have s: \<open>array_join (lit ''; '')
              [nvm_cmd (lit ''/home/user/.nvm'') (lit ''/home/user/.nvm/nvm.sh''),
               path_cmd [lit ''/usr/local/bin'']] @ lit '';'' =
      lit (''export NVM_DIR="/home/user/.nvm"; source "/home/user/.nvm/nvm.sh" 2>/dev/null; ''
           @ ''export PATH="/usr/local/bin:$PATH";'')\<close>
    by (simp add: nvm_cmd_def source_cmd_def path_cmd_def lit_def)
  from env_setup_guarded [of unix_host "lit ''/home/user''" False] s show ?thesis
    by (simp only: unix_host_parts) simp
qed

subsection \<open>Configuration updates\<close>

text \<open>
  C9. \<^verbatim>\<open>updateSettings\<close> replaces the stored settings and \<^verbatim>\<open>updateProjectDirectory\<close> the
  stored project directory, and neither does anything else: the state, \<open>lastError\<close>, the
  handle, the working directory and the list of callback calls are as before, and so is
  every other field of the world.
\<close>

theorem config_updates_frame:
  "state (updateSettings s w) = state w \<and> lastError (updateSettings s w) = lastError w
   \<and> process (updateSettings s w) = process w
   \<and> workingDirectory (updateSettings s w) = workingDirectory w
   \<and> notified (updateSettings s w) = notified w
   \<and> updateSettings s w = w\<lparr>settings := s\<rparr>
   \<and> state (updateProjectDirectory d w) = state w
   \<and> lastError (updateProjectDirectory d w) = lastError w
   \<and> process (updateProjectDirectory d w) = process w
   \<and> workingDirectory (updateProjectDirectory d w) = workingDirectory w
   \<and> notified (updateProjectDirectory d w) = notified w
   \<and> updateProjectDirectory d w = w\<lparr>projectDirectory := d\<rparr>"
  by (simp add: updateSettings_def updateProjectDirectory_def)

subsection \<open>getUrl()\<close>

text \<open>
  C10. When every code unit of the project directory is at most \<open>0xFF\<close>, \<^verbatim>\<open>getUrl()\<close>
  returns http://, the hostname, a colon, the port, a slash and the base64 encoding of the
  directory. When some code unit is above \<open>0xFF\<close>, \<^verbatim>\<open>btoa\<close> throws and \<^verbatim>\<open>getUrl()\<close>
  throws \<open>InvalidCharacterError\<close> to its caller.
\<close>

theorem getUrl_total_on_latin1:
  "((\<forall>u \<in> set (projectDirectory w). u \<le> 0xFF) \<longrightarrow>
      getUrl w = Inr (lit ''http://'' @ hostname (settings w) @ lit '':''
                      @ number_to_string (port (settings w)) @ lit ''/''
                      @ lit (base64_encode (map unat (projectDirectory w)))))
   \<and> ((\<exists>u \<in> set (projectDirectory w). u > 0xFF) \<longrightarrow> getUrl w = Inl InvalidCharacterError)"
  by (auto simp: getUrl_def btoa_def latin1_def list_all_iff Let_def not_le)

theorem getUrl_total_on_latin1_witness:
  "projectDirectory vault_world = lit ''/vault''
   \<and> getUrl vault_world = Inr (lit ''http://127.0.0.1:14096/L3ZhdWx0'')
   \<and> (\<exists>u \<in> set (projectDirectory (updateProjectDirectory [0x2603] vault_world)). u > 0xFF)
   \<and> getUrl (updateProjectDirectory [0x2603] vault_world) = Inl InvalidCharacterError"
proof -
  have a: "\<forall>u \<in> set (projectDirectory vault_world). u \<le> 0xFF"
    by (simp add: vault_world_def constructor_def lit_def)
  have b: "\<exists>u \<in> set (projectDirectory (updateProjectDirectory [0x2603] vault_world)). u > 0xFF"
    by (simp add: updateProjectDirectory_def)
  have c: "projectDirectory vault_world = lit ''/vault''"
    by (simp add: vault_world_def constructor_def)
  from a b c getUrl_total_on_latin1 [of vault_world]
    getUrl_total_on_latin1 [of "updateProjectDirectory [0x2603] vault_world"]
  show ?thesis
    by (simp add: vault_world_def constructor_def DEFAULT_SETTINGS_def lit_def
          number_to_string_def digits.simps b64_char_def b64_alphabet_def)
qed

end
